theory Spec2Isabelle
  imports Main
begin

section \<open>Python values used by the weather pipeline\<close>

text \<open>
  Exceptions are values. Each constructor is one Python exception class that the modules
  \<^verbatim>\<open>Weather.py\<close>, \<^verbatim>\<open>Writer.py\<close>, \<^verbatim>\<open>WriterFactory.py\<close> and
  \<^verbatim>\<open>WeatherPipeline.py\<close> raise themselves or receive from the libraries they call
  (\<^verbatim>\<open>requests\<close>, \<^verbatim>\<open>duckdb\<close>, \<^verbatim>\<open>os\<close>); the string is the message.
  \<^verbatim>\<open>TypeError\<close> and \<^verbatim>\<open>InvalidInputException\<close> are the classes with which
  \<^verbatim>\<open>duckdb\<close> refuses the arguments of a call.
\<close>

datatype exn =
    ValueError string
  | Exception string
  | IOError string
  | UnboundLocalError string
  | AttributeError string
  | ModuleNotFoundError string
  | ConnectionError string
  | Timeout string
  | MissingSchema string
  | HTTPError string
  | RequestsJSONDecodeError string
  | JSONDecodeError string
  | TypeError string
  | InvalidInputException string
  | CatalogException string
  | FileExistsError string
  | FileNotFoundError string
  | NotADirectoryError string
  | IsADirectoryError string
  | PermissionError string

text \<open>\<^verbatim>\<open>str(e)\<close>: the message of the exception.\<close>

fun str_exn :: "exn \<Rightarrow> string" where
  "str_exn (ValueError m) = m"
| "str_exn (Exception m) = m"
| "str_exn (IOError m) = m"
| "str_exn (UnboundLocalError m) = m"
| "str_exn (AttributeError m) = m"
| "str_exn (ModuleNotFoundError m) = m"
| "str_exn (ConnectionError m) = m"
| "str_exn (Timeout m) = m"
| "str_exn (MissingSchema m) = m"
| "str_exn (HTTPError m) = m"
| "str_exn (RequestsJSONDecodeError m) = m"
| "str_exn (JSONDecodeError m) = m"
| "str_exn (TypeError m) = m"
| "str_exn (InvalidInputException m) = m"
| "str_exn (CatalogException m) = m"
| "str_exn (FileExistsError m) = m"
| "str_exn (FileNotFoundError m) = m"
| "str_exn (NotADirectoryError m) = m"
| "str_exn (IsADirectoryError m) = m"
| "str_exn (PermissionError m) = m"

text \<open>\<^verbatim>\<open>type(e).__name__\<close>.\<close>

fun class_name :: "exn \<Rightarrow> string" where
  "class_name (ValueError m) = ''ValueError''"
| "class_name (Exception m) = ''Exception''"
| "class_name (IOError m) = ''OSError''"
| "class_name (UnboundLocalError m) = ''UnboundLocalError''"
| "class_name (AttributeError m) = ''AttributeError''"
| "class_name (ModuleNotFoundError m) = ''ModuleNotFoundError''"
| "class_name (ConnectionError m) = ''ConnectionError''"
| "class_name (Timeout m) = ''Timeout''"
| "class_name (MissingSchema m) = ''MissingSchema''"
| "class_name (HTTPError m) = ''HTTPError''"
| "class_name (RequestsJSONDecodeError m) = ''JSONDecodeError''"
| "class_name (JSONDecodeError m) = ''JSONDecodeError''"
| "class_name (TypeError m) = ''TypeError''"
| "class_name (InvalidInputException m) = ''InvalidInputException''"
| "class_name (CatalogException m) = ''CatalogException''"
| "class_name (FileExistsError m) = ''FileExistsError''"
| "class_name (FileNotFoundError m) = ''FileNotFoundError''"
| "class_name (NotADirectoryError m) = ''NotADirectoryError''"
| "class_name (IsADirectoryError m) = ''IsADirectoryError''"
| "class_name (PermissionError m) = ''PermissionError''"

text \<open>
  \<^verbatim>\<open>except requests.RequestException\<close> catches the classes of
  \<^verbatim>\<open>requests.exceptions\<close>; \<^verbatim>\<open>RequestsJSONDecodeError\<close> is the decode error of
  \<^verbatim>\<open>requests\<close> itself, \<^verbatim>\<open>JSONDecodeError\<close> the one of the standard library, which
  is a \<^verbatim>\<open>ValueError\<close> and not a \<^verbatim>\<open>RequestException\<close>.
\<close>

fun is_RequestException :: "exn \<Rightarrow> bool" where
  "is_RequestException (ConnectionError m) = True"
| "is_RequestException (Timeout m) = True"
| "is_RequestException (MissingSchema m) = True"
| "is_RequestException (HTTPError m) = True"
| "is_RequestException (RequestsJSONDecodeError m) = True"
| "is_RequestException e = False"

text \<open>\<^verbatim>\<open>except IOError\<close>: \<^verbatim>\<open>IOError\<close> is \<^verbatim>\<open>OSError\<close>, with its subclasses.\<close>

fun is_IOError :: "exn \<Rightarrow> bool" where
  "is_IOError (IOError m) = True"
| "is_IOError (FileExistsError m) = True"
| "is_IOError (FileNotFoundError m) = True"
| "is_IOError (NotADirectoryError m) = True"
| "is_IOError (IsADirectoryError m) = True"
| "is_IOError (PermissionError m) = True"
| "is_IOError e = False"

text \<open>
  \<^verbatim>\<open>except duckdb.DuckDBException as e\<close>. When the \<^verbatim>\<open>try\<close> block has raised, the
  expression \<^verbatim>\<open>duckdb.DuckDBException\<close> is evaluated to find out whether the clause
  matches. The module \<^verbatim>\<open>duckdb\<close> has no attribute of that name (the base class of its
  exceptions is \<^verbatim>\<open>duckdb.Error\<close>), so the evaluation raises \<^verbatim>\<open>AttributeError\<close>,
  and that exception leaves the method in place of the one raised in the block,
  whatever its class. The body of the clause never runs.
\<close>

definition no_DuckDBException_text :: string where
  "no_DuckDBException_text =
     ''module '' @ [CHR 0x27] @ ''duckdb'' @ [CHR 0x27] @ '' has no attribute ''
       @ [CHR 0x27] @ ''DuckDBException'' @ [CHR 0x27]"

definition except_DuckDBException :: "exn \<Rightarrow> exn" where
  "except_DuckDBException e = AttributeError no_DuckDBException_text"

subsection \<open>Decimal text of integers\<close>

definition digit_char :: "nat \<Rightarrow> char" where
  "digit_char d = char_of (48 + d)"

function str_of_nat :: "nat \<Rightarrow> string" where
  "str_of_nat n = (if n < 10 then [digit_char n] else str_of_nat (n div 10) @ [digit_char (n mod 10)])"
  by pat_completeness auto
termination
  by (relation "measure id") auto

declare str_of_nat.simps [simp del]

text \<open>\<^verbatim>\<open>str(i)\<close> of a Python \<^verbatim>\<open>int\<close>.\<close>

definition str_of_int :: "int \<Rightarrow> string" where
  "str_of_int i = (if i < 0 then ''-'' @ str_of_nat (nat (- i)) else str_of_nat (nat i))"

subsection \<open>Documents returned by the weather provider\<close>

text \<open>
  What \<^verbatim>\<open>response.json()\<close> returns: \<^verbatim>\<open>None\<close>, booleans, integers, floats, strings,
  lists and dictionaries (in key order). A float is carried by its \<^verbatim>\<open>repr\<close> text.
\<close>

datatype json =
    JNone
  | JBool bool
  | JInt int
  | JFloat string
  | JStr string
  | JList "json list"
  | JDict "(string \<times> json) list"

text \<open>
  \<^verbatim>\<open>repr\<close> of a Python string: single quotes, unless the string holds a single quote and
  no double quote; the quote in use and the backslash are escaped, control characters are
  written \<^verbatim>\<open>\t\<close>, \<^verbatim>\<open>\n\<close>, \<^verbatim>\<open>\r\<close> or \<^verbatim>\<open>\xNN\<close>. This is Python's
  \<^verbatim>\<open>repr\<close> on ASCII text; the bytes of a character outside ASCII are copied, where
  Python escapes those characters that are not printable.
\<close>

definition hex_digit :: "nat \<Rightarrow> char" where
  "hex_digit d = (if d < 10 then char_of (48 + d) else char_of (87 + d))"

definition repr_char :: "char \<Rightarrow> char \<Rightarrow> string" where
  "repr_char q c =
     (if c = q \<or> c = CHR 0x5C then [CHR 0x5C, c]
      else if c = CHR 0x09 then [CHR 0x5C, CHR ''t'']
      else if c = CHR 0x0A then [CHR 0x5C, CHR ''n'']
      else if c = CHR 0x0D then [CHR 0x5C, CHR ''r'']
      else if of_char c < (32::nat) \<or> of_char c = (127::nat)
        then [CHR 0x5C, CHR ''x'', hex_digit (of_char c div 16), hex_digit (of_char c mod 16)]
      else [c])"

definition repr_str :: "string \<Rightarrow> string" where
  "repr_str s =
     (let q = (if CHR 0x27 \<in> set s \<and> CHR 0x22 \<notin> set s then CHR 0x22 else CHR 0x27)
      in [q] @ concat (map (repr_char q) s) @ [q])"

fun join :: "string \<Rightarrow> string list \<Rightarrow> string" where
  "join sep [] = []"
| "join sep [x] = x"
| "join sep (x # y # ys) = x @ sep @ join sep (y # ys)"

fun py_repr :: "json \<Rightarrow> string" where
  "py_repr JNone = ''None''"
| "py_repr (JBool b) = (if b then ''True'' else ''False'')"
| "py_repr (JInt i) = str_of_int i"
| "py_repr (JFloat r) = r"
| "py_repr (JStr s) = repr_str s"
| "py_repr (JList xs) = ''['' @ join '', '' (map py_repr xs) @ '']''"
| "py_repr (JDict kvs) =
     ''{'' @ join '', '' (map (\<lambda>kv. repr_str (fst kv) @ '': '' @ py_repr (snd kv)) kvs) @ ''}''"

text \<open>\<^verbatim>\<open>str(x)\<close>: a string is itself, every other value is its \<^verbatim>\<open>repr\<close>.\<close>

fun py_str :: "json \<Rightarrow> string" where
  "py_str (JStr s) = s"
| "py_str v = py_repr v"

text \<open>An optional string inside an f-string: \<^verbatim>\<open>None\<close> prints as \<^verbatim>\<open>None\<close>.\<close>

fun fmt_opt :: "string option \<Rightarrow> string" where
  "fmt_opt None = ''None''"
| "fmt_opt (Some s) = s"

text \<open>
  \<^verbatim>\<open>str.lower()\<close> on the ASCII letters. No character outside ASCII lowers to one of the
  letters of \<^verbatim>\<open>yes\<close> and \<^verbatim>\<open>no\<close>, so membership in \<^verbatim>\<open>("yes", "no")\<close> after
  lowering is decided by the ASCII letters alone.
\<close>

definition lower_char :: "char \<Rightarrow> char" where
  "lower_char c =
     (if (65::nat) \<le> of_char c \<and> of_char c \<le> (90::nat) then char_of (of_char c + (32::nat)) else c)"

definition lower :: "string \<Rightarrow> string" where
  "lower s = map lower_char s"

section \<open>The world the program runs in\<close>

text \<open>
  \<^verbatim>\<open>requests.get(url)\<close> either raises, and then no response object exists, or returns
  a response: its status code and what its \<^verbatim>\<open>json()\<close> method does.
\<close>

record response =
  status_code :: int
  json_result :: "exn + json"

datatype get_outcome = GetRaises exn | GetReturns response

text \<open>
  A path of the file system after resolution: absolute or relative to the working
  directory, and its components.
\<close>

type_synonym path = "bool \<times> string list"

text \<open>
  The state outside the interpreter: the process environment, the weather provider (the
  outcome of a request may depend on the requests made before), the requests made so far,
  the table \<^verbatim>\<open>weather_location\<close> of the DuckDB database (absent before its creation,
  rows in insertion order), the directories and files of the file system with the paths
  on which the operating system refuses creation or writing, and the calls of a writer's
  \<^verbatim>\<open>write\<close> method so far. The last two fields are the exceptions with which the
  installed \<^verbatim>\<open>duckdb\<close> refuses \<^verbatim>\<open>connect(database=None)\<close> and a call of
  \<^verbatim>\<open>sql\<close> with a second positional argument; their classes differ between versions
  of \<^verbatim>\<open>duckdb\<close>. Text printed to standard output is not part of the model.
\<close>

record world =
  environ :: "string \<rightharpoonup> string"
  http :: "string list \<Rightarrow> string \<Rightarrow> get_outcome"
  net_calls :: "string list"
  weather_location :: "string list option"
  dirs :: "path set"
  files :: "path \<rightharpoonup> string"
  refused :: "path set"
  write_calls :: "(string \<times> string) list"
  connect_error :: exn
  sql_argument_error :: exn

section \<open>Weather.py\<close>

record WeatherData =
  API_KEY :: string
  BASE_URL :: "string option"

text \<open>\<^verbatim>\<open>os.getenv\<close>; \<^verbatim>\<open>not self.API_KEY\<close> holds for \<^verbatim>\<open>None\<close> and for the empty string.\<close>

definition WeatherData_init :: "world \<Rightarrow> exn + WeatherData" where
  "WeatherData_init w =
     (case environ w ''WEATHER_API_KEY'' of
        None \<Rightarrow> Inl (ValueError ''WEATHER_API_KEY not found in environment variables.'')
      | Some k \<Rightarrow>
          if k = [] then Inl (ValueError ''WEATHER_API_KEY not found in environment variables.'')
          else Inr \<lparr>API_KEY = k, BASE_URL = environ w ''WEATHER_API_BASE_URL''\<rparr>)"

text \<open>
  \<^verbatim>\<open>response.raise_for_status()\<close> raises \<^verbatim>\<open>HTTPError\<close> for a status from 400 to 599
  (its message is shortened here; the program only prints it).
\<close>

definition raise_for_status :: "response \<Rightarrow> exn option" where
  "raise_for_status r =
     (if 400 \<le> status_code r \<and> status_code r < 600
      then Some (HTTPError (str_of_int (status_code r) @ '' Error'')) else None)"

text \<open>
  The \<^verbatim>\<open>try\<close> block of \<^verbatim>\<open>__send_request\<close>: its value, or the exception raised
  together with the binding of the local variable \<^verbatim>\<open>response\<close> at that point.
\<close>

definition send_request_try :: "get_outcome \<Rightarrow> (exn \<times> response option) + (json \<times> int)" where
  "send_request_try out =
     (case out of
        GetRaises e \<Rightarrow> Inl (e, None)
      | GetReturns r \<Rightarrow>
          (case raise_for_status r of
             Some e \<Rightarrow> Inl (e, Some r)
           | None \<Rightarrow>
               (case json_result r of
                  Inl e \<Rightarrow> Inl (e, Some r)
                | Inr doc \<Rightarrow> Inr (doc, status_code r))))"

text \<open>
  The \<^verbatim>\<open>except requests.RequestException\<close> clause returns
  \<^verbatim>\<open>{}, response.status_code\<close>; reading \<^verbatim>\<open>response\<close> while it is unbound raises
  \<^verbatim>\<open>UnboundLocalError\<close>. Any other exception passes through.
\<close>

definition send_request_except :: "exn \<Rightarrow> response option \<Rightarrow> exn + (json \<times> int)" where
  "send_request_except e resp =
     (if is_RequestException e then
        (case resp of
           None \<Rightarrow> Inl (UnboundLocalError
             ''cannot access local variable 'response' where it is not associated with a value'')
         | Some r \<Rightarrow> Inr (JDict [], status_code r))
      else Inl e)"

definition send_request :: "string \<Rightarrow> world \<Rightarrow> (exn + (json \<times> int)) \<times> world" where
  "send_request request_url w =
     (let out = http w (net_calls w) request_url;
          w' = w\<lparr>net_calls := net_calls w @ [request_url]\<rparr>
      in case send_request_try out of
           Inl (e, resp) \<Rightarrow> (send_request_except e resp, w')
         | Inr res \<Rightarrow> (Inr res, w'))"

definition history_url :: "WeatherData \<Rightarrow> string \<Rightarrow> string \<Rightarrow> string" where
  "history_url self date location =
     fmt_opt (BASE_URL self) @ ''history.json?key='' @ API_KEY self @ ''&q='' @ location
       @ ''&dt='' @ date"

definition get_forecast_history ::
  "WeatherData \<Rightarrow> string \<Rightarrow> string \<Rightarrow> world \<Rightarrow> (exn + (json \<times> int)) \<times> world" where
  "get_forecast_history self date location w = send_request (history_url self date location) w"

definition forecast_url :: "WeatherData \<Rightarrow> string \<Rightarrow> int \<Rightarrow> string \<Rightarrow> string \<Rightarrow> string" where
  "forecast_url self location days alerts air_quality_data =
     fmt_opt (BASE_URL self) @ ''forecast.json?key='' @ API_KEY self @ ''&q='' @ location
       @ ''&days='' @ str_of_int days @ ''&aqi='' @ air_quality_data @ ''&alerts='' @ alerts"

text \<open>
  \<^verbatim>\<open>get_forecast_future\<close>. Both normalised flags are computed from \<^verbatim>\<open>alerts\<close>, as
  in the source (lines 68 and 72).
\<close>

definition get_forecast_future ::
  "WeatherData \<Rightarrow> string \<Rightarrow> int \<Rightarrow> string \<Rightarrow> string \<Rightarrow> world \<Rightarrow> (exn + (json \<times> int)) \<times> world" where
  "get_forecast_future self location days alerts air_quality_data w =
     (if days < 1 then (Inl (ValueError ''Invalid value for 'days': must be greater than 0.''), w)
      else
        let alerts_normalized = lower alerts in
        if alerts_normalized \<notin> {''yes'', ''no''}
        then (Inl (ValueError ''Invalid value for 'alerts': must be 'yes' or 'no'.''), w)
        else
          let air_quality_data_normalized = lower alerts in
          if air_quality_data_normalized \<notin> {''yes'', ''no''}
          then (Inl (ValueError ''Invalid value for 'air_quality_data': must be 'yes' or 'no'.''), w)
          else send_request (forecast_url self location days alerts air_quality_data) w)"

section \<open>The file system\<close>

text \<open>\<^verbatim>\<open>os.path.dirname\<close> of \<^verbatim>\<open>posixpath\<close>, on the path string.\<close>

definition dirname :: "string \<Rightarrow> string" where
  "dirname p =
     (let head = rev (dropWhile (\<lambda>c. c \<noteq> CHR ''/'') (rev p))
      in if head \<noteq> [] \<and> (\<exists>c \<in> set head. c \<noteq> CHR ''/'')
         then rev (dropWhile (\<lambda>c. c = CHR ''/'') (rev head)) else head)"

fun split_on :: "char \<Rightarrow> string \<Rightarrow> string list" where
  "split_on d [] = [[]]"
| "split_on d (c # cs) =
     (if c = d then [] # split_on d cs
      else (case split_on d cs of [] \<Rightarrow> [[c]] | x # xs \<Rightarrow> (c # x) # xs))"

text \<open>
  Resolution of a path string by the operating system, lexically (no symbolic links):
  empty components and \<^verbatim>\<open>.\<close> are dropped, \<^verbatim>\<open>..\<close> leaves the last directory. This
  is the operating system's resolution for paths without \<^verbatim>\<open>..\<close>, as the script's
  destinations are; with \<^verbatim>\<open>..\<close> the operating system also requires the directory
  that is left to exist.
\<close>

definition resolve_step :: "bool \<Rightarrow> string list \<Rightarrow> string \<Rightarrow> string list" where
  "resolve_step absolute acc c =
     (if c = [] \<or> c = ''.'' then acc
      else if c = ''..'' then
        (if acc \<noteq> [] \<and> last acc \<noteq> ''..'' then butlast acc
         else if absolute then acc else acc @ [c])
      else acc @ [c])"

definition resolve :: "string \<Rightarrow> path" where
  "resolve p =
     (let absolute = (p \<noteq> [] \<and> hd p = CHR ''/'')
      in (absolute, foldl (resolve_step absolute) [] (split_on (CHR ''/'') p)))"

text \<open>The root and the working directory always exist.\<close>

definition isdir :: "world \<Rightarrow> path \<Rightarrow> bool" where
  "isdir w p = (snd p = [] \<or> p \<in> dirs w)"

definition isfile :: "world \<Rightarrow> path \<Rightarrow> bool" where
  "isfile w p = (\<not> isdir w p \<and> files w p \<noteq> None)"

definition parent :: "path \<Rightarrow> path" where
  "parent p = (fst p, butlast (snd p))"

definition os_error_text :: "string \<Rightarrow> string \<Rightarrow> string" where
  "os_error_text what name = what @ '': '' @ repr_str name"

text \<open>\<^verbatim>\<open>os.mkdir\<close> of the resolved path \<open>p\<close>, named \<open>name\<close> by the caller.\<close>

definition mkdir :: "string \<Rightarrow> path \<Rightarrow> world \<Rightarrow> exn + world" where
  "mkdir name p w =
     (if isdir w p \<or> isfile w p then Inl (FileExistsError (os_error_text ''[Errno 17] File exists'' name))
      else if isfile w (parent p)
        then Inl (NotADirectoryError (os_error_text ''[Errno 20] Not a directory'' name))
      else if \<not> isdir w (parent p)
        then Inl (FileNotFoundError (os_error_text ''[Errno 2] No such file or directory'' name))
      else if p \<in> refused w
        then Inl (PermissionError (os_error_text ''[Errno 13] Permission denied'' name))
      else Inr (w\<lparr>dirs := insert p (dirs w)\<rparr>))"

text \<open>
  \<^verbatim>\<open>os.makedirs(name, exist_ok=True)\<close>: the directories on the way to \<open>name\<close> are made
  from the outermost on; a directory that exists is left alone, a file on the way is
  \<^verbatim>\<open>NotADirectoryError\<close>, a file at the leaf \<^verbatim>\<open>FileExistsError\<close>. The directories
  made before a failure stay. The message of an error names \<open>name\<close>, where Python names
  the directory that could not be made.
\<close>

fun makedirs_from :: "string \<Rightarrow> bool \<Rightarrow> string list \<Rightarrow> string list \<Rightarrow> world \<Rightarrow> (exn + unit) \<times> world" where
  "makedirs_from name absolute done [] w = (Inr (), w)"
| "makedirs_from name absolute done (c # cs) w =
     (let q = (absolute, done @ [c])
      in if isdir w q then makedirs_from name absolute (done @ [c]) cs w
         else if isfile w q \<and> cs \<noteq> []
           then (Inl (NotADirectoryError (os_error_text ''[Errno 20] Not a directory'' name)), w)
         else (case mkdir name q w of
                 Inl e \<Rightarrow> (Inl e, w)
               | Inr w' \<Rightarrow> makedirs_from name absolute (done @ [c]) cs w'))"

definition makedirs :: "string \<Rightarrow> world \<Rightarrow> (exn + unit) \<times> world" where
  "makedirs name w =
     (if name = [] then (Inl (FileNotFoundError (os_error_text ''[Errno 2] No such file or directory'' name)), w)
      else makedirs_from name (fst (resolve name)) [] (snd (resolve name)) w)"

text \<open>
  \<^verbatim>\<open>with open(destination, "w") as file: file.write(data)\<close>: the file is created or
  truncated, and holds \<open>data\<close> afterwards.
\<close>

definition open_write :: "string \<Rightarrow> string \<Rightarrow> world \<Rightarrow> exn + world" where
  "open_write destination data w =
     (let p = resolve destination in
      if destination = []
        then Inl (FileNotFoundError (os_error_text ''[Errno 2] No such file or directory'' destination))
      else if isdir w p
        then Inl (IsADirectoryError (os_error_text ''[Errno 21] Is a directory'' destination))
      else if isfile w (parent p)
        then Inl (NotADirectoryError (os_error_text ''[Errno 20] Not a directory'' destination))
      else if \<not> isdir w (parent p)
        then Inl (FileNotFoundError (os_error_text ''[Errno 2] No such file or directory'' destination))
      else if p \<in> refused w
        then Inl (PermissionError (os_error_text ''[Errno 13] Permission denied'' destination))
      else Inr (w\<lparr>files := (files w)(p \<mapsto> data)\<rparr>))"

section \<open>Writer.py\<close>

text \<open>
  The objects that reach a \<^verbatim>\<open>writer\<close> parameter: an instance of one of the two
  \<^verbatim>\<open>Writer\<close> classes, or an exception instance (what \<^verbatim>\<open>get_writer\<close> returns for
  \<^verbatim>\<open>azure\<close>).
\<close>

datatype object = LocalWriter | AzureBlobWriter | ExnObject exn

text \<open>\<^verbatim>\<open>LocalWriter.write\<close>. \<^verbatim>\<open>os.makedirs\<close> is called outside the \<^verbatim>\<open>try\<close>.\<close>

definition LocalWriter_write :: "string \<Rightarrow> string \<Rightarrow> world \<Rightarrow> (exn + bool) \<times> world" where
  "LocalWriter_write data destination w =
     (case makedirs (dirname destination) w of
        (Inl e, w1) \<Rightarrow> (Inl e, w1)
      | (Inr u, w1) \<Rightarrow>
          (case open_write destination data w1 of
             Inl e \<Rightarrow>
               (if is_IOError e
                then (Inl (IOError (''Failed to write to '' @ destination @ '': '' @ str_exn e)), w1)
                else (Inl e, w1))
           | Inr w2 \<Rightarrow> (Inr True, w2)))"

text \<open>\<^verbatim>\<open>AzureBlobWriter.write\<close> is \<^verbatim>\<open>pass\<close>: it returns \<^verbatim>\<open>None\<close> and does nothing.\<close>

definition AzureBlobWriter_write :: "string \<Rightarrow> string \<Rightarrow> world \<Rightarrow> (exn + bool option) \<times> world" where
  "AzureBlobWriter_write data destination w = (Inr None, w)"

text \<open>
  The call \<^verbatim>\<open>writer.write(data, destination)\<close>: the method of the object's class, or
  \<^verbatim>\<open>AttributeError\<close> when the object has none. A call that reaches a \<^verbatim>\<open>write\<close>
  method is recorded in \<open>write_calls\<close>.
\<close>

definition call_write :: "object \<Rightarrow> string \<Rightarrow> string \<Rightarrow> world \<Rightarrow> (exn + bool option) \<times> world" where
  "call_write writer data destination w =
     (case writer of
        LocalWriter \<Rightarrow>
          (case LocalWriter_write data destination (w\<lparr>write_calls := write_calls w @ [(data, destination)]\<rparr>) of
             (Inl e, w') \<Rightarrow> (Inl e, w')
           | (Inr b, w') \<Rightarrow> (Inr (Some b), w'))
      | AzureBlobWriter \<Rightarrow>
          AzureBlobWriter_write data destination (w\<lparr>write_calls := write_calls w @ [(data, destination)]\<rparr>)
      | ExnObject e \<Rightarrow>
          (Inl (AttributeError
             ([CHR 0x27] @ class_name e @ [CHR 0x27] @ '' object has no attribute ''
                @ [CHR 0x27] @ ''write'' @ [CHR 0x27])), w))"

section \<open>WriterFactory.py\<close>

text \<open>
  \<^verbatim>\<open>get_writer\<close>. The branch for \<^verbatim>\<open>azure\<close> is
  \<^verbatim>\<open>return ModuleNotFoundError(...)\<close>: the exception instance is the returned value.
\<close>

definition get_writer :: "string \<Rightarrow> exn + object" where
  "get_writer writer_type =
     (if writer_type = ''local'' then Inr LocalWriter
      else if writer_type = ''azure''
        then Inr (ExnObject (ModuleNotFoundError ''AzureBlobWriter is not implemented yet.''))
      else Inl (ValueError (''Unknown writer type: '' @ writer_type)))"

section \<open>WeatherPipeline.py\<close>

subsection \<open>The calls of DuckDB\<close>

text \<open>
  \<^verbatim>\<open>duckdb.connect(database=os.getenv("DUCK_DB_PATH"))\<close>. When the variable is unset the
  argument is \<^verbatim>\<open>None\<close>, which \<^verbatim>\<open>connect\<close> refuses; with a path the connection is
  taken to succeed.
\<close>

definition duckdb_connect :: "world \<Rightarrow> exn + unit" where
  "duckdb_connect w =
     (case environ w ''DUCK_DB_PATH'' of
        None \<Rightarrow> Inl (connect_error w)
      | Some database \<Rightarrow> Inr ())"

text \<open>
  The table is \<^verbatim>\<open>weather_location (postcode VARCHAR UNIQUE NOT NULL)\<close>. The two
  statements that the program sends as the only argument of \<^verbatim>\<open>con.sql\<close> have the
  meaning of their SQL text.
\<close>

definition sql_create_table_if_not_exists :: "world \<Rightarrow> world" where
  "sql_create_table_if_not_exists w =
     (case weather_location w of None \<Rightarrow> w\<lparr>weather_location := Some []\<rparr> | Some rows \<Rightarrow> w)"

definition no_table_text :: string where
  "no_table_text = ''Catalog Error: Table with name weather_location does not exist!''"

definition sql_select :: "world \<Rightarrow> (exn + string list) \<times> world" where
  "sql_select w =
     (case weather_location w of
        None \<Rightarrow> (Inl (CatalogException no_table_text), w)
      | Some rows \<Rightarrow> (Inr rows, w))"

text \<open>
  \<^verbatim>\<open>self.con.sql(text, postcode)\<close>, the call of \<^verbatim>\<open>add_location\<close> and of
  \<^verbatim>\<open>remove_location\<close>. The values for the \<^verbatim>\<open>?\<close> of a statement are the keyword
  argument \<^verbatim>\<open>params\<close> of \<^verbatim>\<open>sql\<close>; a second positional argument is not bound to
  them. The call raises, and the statement does not change the table.
\<close>

definition sql_with_positional_argument :: "string \<Rightarrow> string \<Rightarrow> world \<Rightarrow> (exn + unit) \<times> world" where
  "sql_with_positional_argument statement postcode w = (Inl (sql_argument_error w), w)"

definition insert_text :: string where
  "insert_text = ''INSERT INTO weather_location (postcode) VALUES (?);''"

definition delete_text :: string where
  "delete_text = ''DELETE FROM weather_location WHERE postcode = ?;''"

subsection \<open>The class WeatherPipeline\<close>

record WeatherPipeline =
  weather_data :: WeatherData

text \<open>
  \<^verbatim>\<open>__init__\<close>: the connection is opened first, then the table is created, then
  \<^verbatim>\<open>WeatherData()\<close> is constructed. The metaclass \<^verbatim>\<open>SingletonMeta\<close> runs
  \<^verbatim>\<open>__init__\<close> at the first call of \<^verbatim>\<open>WeatherPipeline()\<close> only; the script calls it
  once.
\<close>

definition WeatherPipeline_init :: "world \<Rightarrow> (exn + WeatherPipeline) \<times> world" where
  "WeatherPipeline_init w =
     (case duckdb_connect w of
        Inl e \<Rightarrow> (Inl e, w)
      | Inr con \<Rightarrow>
          (let w1 = sql_create_table_if_not_exists w
           in case WeatherData_init w1 of
                Inl e \<Rightarrow> (Inl e, w1)
              | Inr wd \<Rightarrow> (Inr \<lparr>weather_data = wd\<rparr>, w1)))"

text \<open>
  \<^verbatim>\<open>add_location\<close>, \<^verbatim>\<open>remove_location\<close> and \<^verbatim>\<open>get_locations\<close>: a \<^verbatim>\<open>try\<close> block
  with the call of \<^verbatim>\<open>con.sql\<close> and the clause \<^verbatim>\<open>except duckdb.DuckDBException\<close>.
\<close>

definition add_location :: "WeatherPipeline \<Rightarrow> string \<Rightarrow> world \<Rightarrow> (exn + unit) \<times> world" where
  "add_location self postcode w =
     (case sql_with_positional_argument insert_text postcode w of
        (Inl e, w') \<Rightarrow> (Inl (except_DuckDBException e), w')
      | (Inr u, w') \<Rightarrow> (Inr (), w'))"

definition remove_location :: "WeatherPipeline \<Rightarrow> string \<Rightarrow> world \<Rightarrow> (exn + unit) \<times> world" where
  "remove_location self postcode w =
     (case sql_with_positional_argument delete_text postcode w of
        (Inl e, w') \<Rightarrow> (Inl (except_DuckDBException e), w')
      | (Inr u, w') \<Rightarrow> (Inr (), w'))"

definition get_locations :: "WeatherPipeline \<Rightarrow> world \<Rightarrow> (exn + string list) \<times> world" where
  "get_locations self w =
     (case sql_select w of
        (Inl e, w') \<Rightarrow> (Inl (except_DuckDBException e), w')
      | (Inr forecast_locations, w') \<Rightarrow> (Inr forecast_locations, w'))"

definition get_and_write_forecast_history ::
  "WeatherPipeline \<Rightarrow> string \<Rightarrow> string \<Rightarrow> object \<Rightarrow> string \<Rightarrow> world \<Rightarrow> (exn + unit) \<times> world" where
  "get_and_write_forecast_history self date location writer destination w =
     (case get_forecast_history (weather_data self) date location w of
        (Inl e, w1) \<Rightarrow> (Inl e, w1)
      | (Inr (result, status), w1) \<Rightarrow>
          if status \<noteq> 200
          then (Inl (Exception (''Failed to fetch data: '' @ py_str result)), w1)
          else (case call_write writer (py_str result) destination w1 of
                  (Inl e, w2) \<Rightarrow> (Inl e, w2)
                | (Inr r, w2) \<Rightarrow> (Inr (), w2)))"

subsection \<open>The script\<close>

definition destination_of :: "string \<Rightarrow> string \<Rightarrow> string" where
  "destination_of location today = ''./output/'' @ location @ ''/'' @ today @ ''.json''"

text \<open>
  The \<^verbatim>\<open>for\<close> loop of the script. There is no \<^verbatim>\<open>try\<close> around the call: an
  exception leaves the loop.
\<close>

fun run_loop :: "WeatherPipeline \<Rightarrow> string \<Rightarrow> object \<Rightarrow> string list \<Rightarrow> world \<Rightarrow> (exn + unit) \<times> world" where
  "run_loop weather_pipeline today writer [] w = (Inr (), w)"
| "run_loop weather_pipeline today writer (location # locations) w =
     (case get_and_write_forecast_history weather_pipeline today location writer
             (destination_of location today) w of
        (Inl e, w') \<Rightarrow> (Inl e, w')
      | (Inr u, w') \<Rightarrow> run_loop weather_pipeline today writer locations w')"

text \<open>
  The script, with \<open>today\<close> the text of the current date and the environment already
  loaded from the \<^verbatim>\<open>.env\<close> file.
\<close>

definition main :: "string \<Rightarrow> world \<Rightarrow> (exn + unit) \<times> world" where
  "main today w =
     (case WeatherPipeline_init w of
        (Inl e, w1) \<Rightarrow> (Inl e, w1)
      | (Inr weather_pipeline, w1) \<Rightarrow>
          (case get_writer ''local'' of
             Inl e \<Rightarrow> (Inl e, w1)
           | Inr writer \<Rightarrow>
               (case get_locations weather_pipeline w1 of
                  (Inl e, w2) \<Rightarrow> (Inl e, w2)
                | (Inr locations, w2) \<Rightarrow> run_loop weather_pipeline today writer locations w2)))"

section \<open>Example inputs\<close>

text \<open>
  A world in which the three settings are present, the provider answers every request
  with status 200 and the document \<^verbatim>\<open>{"temp_c": 21}\<close>, no request has been made, the
  database has no table yet and the file system is empty and refuses nothing.
\<close>

definition example_world :: world where
  "example_world =
     \<lparr>environ = [''WEATHER_API_KEY'' \<mapsto> ''k'', ''WEATHER_API_BASE_URL'' \<mapsto> ''https://api.example/v1/'',
                 ''DUCK_DB_PATH'' \<mapsto> ''weather.duckdb''],
      http = (\<lambda>calls url. GetReturns \<lparr>status_code = 200, json_result = Inr (JDict [(''temp_c'', JInt 21)])\<rparr>),
      net_calls = [],
      weather_location = None,
      dirs = {},
      files = Map.empty,
      refused = {},
      write_calls = [],
      connect_error = TypeError ''connect(): incompatible function arguments'',
      sql_argument_error = TypeError ''sql(): incompatible function arguments''\<rparr>"

definition example_client :: WeatherData where
  "example_client = \<lparr>API_KEY = ''k'', BASE_URL = Some ''https://api.example/v1/''\<rparr>"

definition example_pipeline :: WeatherPipeline where
  "example_pipeline = \<lparr>weather_data = example_client\<rparr>"

text \<open>
  The provider answers the history request for location \<^verbatim>\<open>20002\<close> with status 500 and
  every other request with status 200; three locations are registered.
\<close>

definition outage_world :: world where
  "outage_world =
     example_world
       \<lparr>http := (\<lambda>calls url.
          if url = ''https://api.example/v1/history.json?key=k&q=20002&dt=2024-01-01''
          then GetReturns \<lparr>status_code = 500, json_result = Inr (JDict [])\<rparr>
          else GetReturns \<lparr>status_code = 200, json_result = Inr (JDict [(''temp_c'', JInt 21)])\<rparr>),
        weather_location := Some [''10001'', ''20002'', ''30003'']\<rparr>"

text \<open>The destination of the example exists already, with other content.\<close>

definition stale_world :: world where
  "stale_world =
     example_world
       \<lparr>dirs := {(True, [''tmp'']), (True, [''tmp'', ''out'']), (True, [''tmp'', ''out'', ''10001''])},
        files := [(True, [''tmp'', ''out'', ''10001'', ''2024-01-01.json'']) \<mapsto> ''stale'']\<rparr>"

text \<open>A registry of two locations.\<close>

definition registry_world :: world where
  "registry_world = example_world\<lparr>weather_location := Some [''10001'', ''20002'']\<rparr>"

text \<open>Only the database path is set: the API key and the base URL are missing.\<close>

definition no_key_world :: world where
  "no_key_world = example_world\<lparr>environ := [''DUCK_DB_PATH'' \<mapsto> ''weather.duckdb'']\<rparr>"

text \<open>The API key and the database path are set, the base URL is missing.\<close>

definition no_base_url_world :: world where
  "no_base_url_world =
     example_world\<lparr>environ := [''WEATHER_API_KEY'' \<mapsto> ''k'', ''DUCK_DB_PATH'' \<mapsto> ''weather.duckdb'']\<rparr>"

section \<open>Evaluation of the examples\<close>

lemma lower_yes: "lower ''yes'' = ''yes''"
  by code_simp

lemma py_str_example: "py_str (JDict [(''temp_c'', JInt 21)]) = ''{'temp_c': 21}''"
  by code_simp

lemma py_str_empty: "py_str (JDict []) = ''{}''"
  by code_simp

lemma dirname_example: "dirname ''/tmp/out/10001/2024-01-01.json'' = ''/tmp/out/10001''"
  by code_simp

lemma resolve_example_dir: "resolve ''/tmp/out/10001'' = (True, [''tmp'', ''out'', ''10001''])"
  by code_simp

lemma resolve_example_file:
  "resolve ''/tmp/out/10001/2024-01-01.json'' = (True, [''tmp'', ''out'', ''10001'', ''2024-01-01.json''])"
  by code_simp

lemma dirname_output_10001: "dirname ''./output/10001/2024-01-01.json'' = ''./output/10001''"
  by code_simp

lemma resolve_output_10001: "resolve ''./output/10001'' = (False, [''output'', ''10001''])"
  by code_simp

lemma resolve_output_10001_file:
  "resolve ''./output/10001/2024-01-01.json'' = (False, [''output'', ''10001'', ''2024-01-01.json''])"
  by code_simp

lemma resolve_output_30003_file:
  "resolve ''./output/30003/2024-01-01.json'' = (False, [''output'', ''30003'', ''2024-01-01.json''])"
  by code_simp

section \<open>Properties of the weather client\<close>

lemma send_request_world:
  "snd (send_request url w) = w\<lparr>net_calls := net_calls w @ [url]\<rparr>"
  by (simp add: send_request_def Let_def split: sum.splits prod.splits)

lemma send_request_http_error:
  assumes "http w (net_calls w) url = GetReturns r" "400 \<le> status_code r" "status_code r < 600"
  shows "fst (send_request url w) = Inr (JDict [], status_code r)"
  using assms
  by (simp add: send_request_def send_request_try_def send_request_except_def raise_for_status_def)

lemma get_forecast_history_world:
  "snd (get_forecast_history wd date location w)
     = w\<lparr>net_calls := net_calls w @ [history_url wd date location]\<rparr>"
  by (simp add: get_forecast_history_def send_request_world)

text \<open>
  Claim C2. The claim asks that \<^verbatim>\<open>get_forecast_future\<close> reject an air-quality flag
  other than yes or no whatever the alerts flag is. The code does not: with days 1, alerts
  \<^verbatim>\<open>yes\<close> and air-quality flag \<^verbatim>\<open>maybe\<close> no \<^verbatim>\<open>ValueError\<close> is raised, the call
  is the request itself, and the request is sent with \<^verbatim>\<open>aqi=maybe\<close> in its URL.
\<close>

theorem forecast_air_quality_flag_unchecked:
  "get_forecast_future self location 1 ''yes'' ''maybe'' w
     = send_request (forecast_url self location 1 ''yes'' ''maybe'') w
   \<and> net_calls (snd (get_forecast_future self location 1 ''yes'' ''maybe'' w))
     = net_calls w @ [forecast_url self location 1 ''yes'' ''maybe'']"
  by (simp add: get_forecast_future_def lower_yes send_request_world)

text \<open>
  Claim C4. The claim asks that a transport failure give an empty payload with a status
  code and never an exception. When \<^verbatim>\<open>requests.get\<close> raises \<^verbatim>\<open>ConnectionError\<close>, so
  that no response exists, the \<^verbatim>\<open>except\<close> clause reads the unbound variable
  \<^verbatim>\<open>response\<close> and \<^verbatim>\<open>get_forecast_history\<close> ends with \<^verbatim>\<open>UnboundLocalError\<close>.
\<close>

theorem send_request_no_response_unbound:
  "fst (get_forecast_history self date location (w\<lparr>http := \<lambda>calls url. GetRaises (ConnectionError m)\<rparr>))
     = Inl (UnboundLocalError
         ''cannot access local variable 'response' where it is not associated with a value'')"
  by (simp add: get_forecast_history_def send_request_def send_request_try_def send_request_except_def)

text \<open>
  Claim C7. For a response with a status from 400 to 599 the fetch operations return
  normally: \<^verbatim>\<open>get_forecast_history\<close> returns the empty dictionary with that status
  code, and so does \<^verbatim>\<open>get_forecast_future\<close> once its arguments have passed its
  checks.
\<close>

theorem http_error_response_is_normal_result:
  assumes "400 \<le> status_code r" and "status_code r < 600"
  shows "(http w (net_calls w) (history_url self date location) = GetReturns r
            \<longrightarrow> fst (get_forecast_history self date location w) = Inr (JDict [], status_code r))
       \<and> (1 \<le> days \<and> lower alerts \<in> {''yes'', ''no''}
            \<and> http w (net_calls w) (forecast_url self location days alerts air_quality_data) = GetReturns r
            \<longrightarrow> fst (get_forecast_future self location days alerts air_quality_data w)
                  = Inr (JDict [], status_code r))"
proof (intro conjI impI)
  assume "http w (net_calls w) (history_url self date location) = GetReturns r"
  then show "fst (get_forecast_history self date location w) = Inr (JDict [], status_code r)"
    using assms by (simp add: get_forecast_history_def send_request_http_error)
next
  assume h: "1 \<le> days \<and> lower alerts \<in> {''yes'', ''no''}
      \<and> http w (net_calls w) (forecast_url self location days alerts air_quality_data) = GetReturns r"
  then have "get_forecast_future self location days alerts air_quality_data w
      = send_request (forecast_url self location days alerts air_quality_data) w"
    by (auto simp add: get_forecast_future_def Let_def)
  then show "fst (get_forecast_future self location days alerts air_quality_data w)
      = Inr (JDict [], status_code r)"
    using h assms by (simp add: send_request_http_error)
qed

theorem http_error_response_is_normal_result_witness:
  "fst (get_forecast_history example_client ''2024-01-01'' ''10001''
         (example_world\<lparr>http := \<lambda>calls url. GetReturns \<lparr>status_code = 404, json_result = Inr JNone\<rparr>\<rparr>))
     = Inr (JDict [], 404)
   \<and> fst (get_forecast_future example_client ''10001'' 3 ''yes'' ''no''
         (example_world\<lparr>http := \<lambda>calls url. GetReturns \<lparr>status_code = 404, json_result = Inr JNone\<rparr>\<rparr>))
     = Inr (JDict [], 404)"
  using http_error_response_is_normal_result
    [where r = "\<lparr>status_code = 404, json_result = Inr JNone\<rparr>"
       and w = "example_world\<lparr>http := \<lambda>calls url. GetReturns \<lparr>status_code = 404, json_result = Inr JNone\<rparr>\<rparr>"
       and self = example_client and date = "''2024-01-01''" and location = "''10001''"
       and days = 3 and alerts = "''yes''" and air_quality_data = "''no''"]
  by (simp add: lower_yes)

section \<open>Properties of the writer factory\<close>

text \<open>
  Claim C5. The claim asks that \<^verbatim>\<open>get_writer\<close> raise for every identifier that does
  not resolve to an implemented writer. For \<^verbatim>\<open>azure\<close> it returns normally, and the
  returned value is a \<^verbatim>\<open>ModuleNotFoundError\<close> instance.
\<close>

theorem get_writer_azure_returns_exception_object:
  "get_writer ''azure'' = Inr (ExnObject (ModuleNotFoundError ''AzureBlobWriter is not implemented yet.''))"
  by (simp add: get_writer_def)

section \<open>Properties of start-up\<close>

lemma environ_create_table [simp]:
  "environ (sql_create_table_if_not_exists w) = environ w"
  by (simp add: sql_create_table_if_not_exists_def split: option.splits)

lemma net_calls_create_table [simp]:
  "net_calls (sql_create_table_if_not_exists w) = net_calls w"
  by (simp add: sql_create_table_if_not_exists_def split: option.splits)

lemma WeatherData_init_environ:
  "environ w' = environ w \<Longrightarrow> WeatherData_init w' = WeatherData_init w"
  by (simp add: WeatherData_init_def split: option.splits)

lemma WeatherPipeline_init_no_path:
  "environ w ''DUCK_DB_PATH'' = None \<Longrightarrow> WeatherPipeline_init w = (Inl (connect_error w), w)"
  by (simp add: WeatherPipeline_init_def duckdb_connect_def)

lemma WeatherPipeline_init_path:
  assumes "environ w ''DUCK_DB_PATH'' = Some p"
  shows "WeatherPipeline_init w =
     (case WeatherData_init w of
        Inl e \<Rightarrow> (Inl e, sql_create_table_if_not_exists w)
      | Inr wd \<Rightarrow> (Inr \<lparr>weather_data = wd\<rparr>, sql_create_table_if_not_exists w))"
proof -
  have "WeatherData_init (sql_create_table_if_not_exists w) = WeatherData_init w"
    by (rule WeatherData_init_environ) simp
  with assms show ?thesis
    by (simp add: WeatherPipeline_init_def duckdb_connect_def Let_def)
qed

lemma WeatherPipeline_init_fails_without_key:
  assumes "WeatherData_init w = Inl e"
  shows "\<exists>e' w'. WeatherPipeline_init w = (Inl e', w') \<and> net_calls w' = net_calls w"
proof (cases "environ w ''DUCK_DB_PATH''")
  case None
  then show ?thesis by (simp add: WeatherPipeline_init_no_path)
next
  case (Some p)
  with assms show ?thesis by (simp add: WeatherPipeline_init_path)
qed

text \<open>
  Claim C10, as stated, fails: with the API key and the database path set and the base
  URL missing, the pipeline is constructed, with \<^verbatim>\<open>BASE_URL\<close> \<^verbatim>\<open>None\<close>, and a history
  fetch then sends a request whose URL starts with the text \<^verbatim>\<open>None\<close>.
\<close>

theorem missing_base_url_counterexample:
  "fst (WeatherPipeline_init no_base_url_world)
     = Inr \<lparr>weather_data = \<lparr>API_KEY = ''k'', BASE_URL = None\<rparr>\<rparr>
   \<and> net_calls (snd (get_forecast_history \<lparr>API_KEY = ''k'', BASE_URL = None\<rparr> ''2024-01-01'' ''10001''
        no_base_url_world))
     = [''Nonehistory.json?key=k&q=10001&dt=2024-01-01'']"
  by (simp add: WeatherPipeline_init_def duckdb_connect_def WeatherData_init_def
      sql_create_table_if_not_exists_def no_base_url_world_def example_world_def
      get_forecast_history_def send_request_world history_url_def)

text \<open>
  Claim C10, amended. When \<^verbatim>\<open>WEATHER_API_KEY\<close> is absent or empty, the construction of
  the client fails with \<^verbatim>\<open>ValueError\<close>, the construction of the pipeline fails, and
  the script ends with an error without having sent a request; with the database path
  \<^verbatim>\<open>DUCK_DB_PATH\<close> set that error is the \<^verbatim>\<open>ValueError\<close> of the client. When the key is
  present and not empty, the construction of the client succeeds whether or not
  \<^verbatim>\<open>WEATHER_API_BASE_URL\<close> is set, and so does the construction of the pipeline when the
  database path is set. When the database path is not set, the construction of the
  pipeline fails with the error of \<^verbatim>\<open>duckdb.connect\<close>, before the key is looked at and
  without a request.
\<close>

theorem startup_checks_api_key_only:
  "(environ w ''WEATHER_API_KEY'' = None \<or> environ w ''WEATHER_API_KEY'' = Some []
      \<longrightarrow> WeatherData_init w = Inl (ValueError ''WEATHER_API_KEY not found in environment variables.'')
        \<and> (\<exists>e. fst (WeatherPipeline_init w) = Inl e)
        \<and> (\<exists>e. fst (main today w) = Inl e)
        \<and> net_calls (snd (main today w)) = net_calls w
        \<and> (environ w ''DUCK_DB_PATH'' = Some p
             \<longrightarrow> fst (WeatherPipeline_init w)
                   = Inl (ValueError ''WEATHER_API_KEY not found in environment variables.'')
               \<and> fst (main today w)
                   = Inl (ValueError ''WEATHER_API_KEY not found in environment variables.'')))
   \<and> (environ w ''WEATHER_API_KEY'' = Some k \<and> k \<noteq> []
      \<longrightarrow> WeatherData_init w = Inr \<lparr>API_KEY = k, BASE_URL = environ w ''WEATHER_API_BASE_URL''\<rparr>
        \<and> (environ w ''DUCK_DB_PATH'' = Some p
             \<longrightarrow> fst (WeatherPipeline_init w)
                   = Inr \<lparr>weather_data = \<lparr>API_KEY = k, BASE_URL = environ w ''WEATHER_API_BASE_URL''\<rparr>\<rparr>))
   \<and> (environ w ''DUCK_DB_PATH'' = None
      \<longrightarrow> fst (WeatherPipeline_init w) = Inl (connect_error w)
        \<and> fst (main today w) = Inl (connect_error w)
        \<and> net_calls (snd (main today w)) = net_calls w)"
proof (intro conjI impI)
  assume a: "environ w ''WEATHER_API_KEY'' = None \<or> environ w ''WEATHER_API_KEY'' = Some []"
  then show i: "WeatherData_init w = Inl (ValueError ''WEATHER_API_KEY not found in environment variables.'')"
    by (auto simp add: WeatherData_init_def)
  from WeatherPipeline_init_fails_without_key [OF i]
  obtain e' w' where p: "WeatherPipeline_init w = (Inl e', w')" and n: "net_calls w' = net_calls w"
    by blast
  from p show "\<exists>e. fst (WeatherPipeline_init w) = Inl e" by simp
  from p show "\<exists>e. fst (main today w) = Inl e" by (simp add: main_def)
  from p n show "net_calls (snd (main today w)) = net_calls w" by (simp add: main_def)
  assume d: "environ w ''DUCK_DB_PATH'' = Some p"
  from i have q: "WeatherPipeline_init w
      = (Inl (ValueError ''WEATHER_API_KEY not found in environment variables.''),
         sql_create_table_if_not_exists w)"
    by (simp add: WeatherPipeline_init_path [OF d])
  then show "fst (WeatherPipeline_init w)
      = Inl (ValueError ''WEATHER_API_KEY not found in environment variables.'')"
    by simp
  from q show "fst (main today w) = Inl (ValueError ''WEATHER_API_KEY not found in environment variables.'')"
    by (simp add: main_def)
next
  assume a: "environ w ''WEATHER_API_KEY'' = Some k \<and> k \<noteq> []"
  then show i: "WeatherData_init w = Inr \<lparr>API_KEY = k, BASE_URL = environ w ''WEATHER_API_BASE_URL''\<rparr>"
    by (simp add: WeatherData_init_def)
  assume d: "environ w ''DUCK_DB_PATH'' = Some p"
  from i show "fst (WeatherPipeline_init w)
      = Inr \<lparr>weather_data = \<lparr>API_KEY = k, BASE_URL = environ w ''WEATHER_API_BASE_URL''\<rparr>\<rparr>"
    by (simp add: WeatherPipeline_init_path [OF d])
next
  assume d: "environ w ''DUCK_DB_PATH'' = None"
  then have p: "WeatherPipeline_init w = (Inl (connect_error w), w)"
    by (rule WeatherPipeline_init_no_path)
  then show "fst (WeatherPipeline_init w) = Inl (connect_error w)" by simp
  from p show "fst (main today w) = Inl (connect_error w)" by (simp add: main_def)
  from p show "net_calls (snd (main today w)) = net_calls w" by (simp add: main_def)
qed

theorem startup_checks_api_key_only_witness:
  "fst (main ''2024-01-01'' no_key_world)
     = Inl (ValueError ''WEATHER_API_KEY not found in environment variables.'')
   \<and> net_calls (snd (main ''2024-01-01'' no_key_world)) = []
   \<and> fst (WeatherPipeline_init no_base_url_world)
       = Inr \<lparr>weather_data = \<lparr>API_KEY = ''k'', BASE_URL = None\<rparr>\<rparr>
   \<and> fst (WeatherPipeline_init example_world)
       = Inr \<lparr>weather_data = \<lparr>API_KEY = ''k'', BASE_URL = Some ''https://api.example/v1/''\<rparr>\<rparr>
   \<and> fst (main ''2024-01-01'' (example_world\<lparr>environ := Map.empty\<rparr>))
       = Inl (TypeError ''connect(): incompatible function arguments'')"
  using startup_checks_api_key_only [where w = no_key_world and today = "''2024-01-01''"
      and k = "''k''" and p = "''weather.duckdb''"]
    startup_checks_api_key_only [where w = no_base_url_world and today = "''2024-01-01''"
      and k = "''k''" and p = "''weather.duckdb''"]
    startup_checks_api_key_only [where w = example_world and today = "''2024-01-01''"
      and k = "''k''" and p = "''weather.duckdb''"]
    startup_checks_api_key_only [where w = "example_world\<lparr>environ := Map.empty\<rparr>"
      and today = "''2024-01-01''" and k = "''k''" and p = "''weather.duckdb''"]
  by (simp add: no_key_world_def no_base_url_world_def example_world_def)

section \<open>Properties of the location registry\<close>

text \<open>
  Claim C6. The claim asks that \<^verbatim>\<open>add_location(L)\<close> succeed for a location that is not
  registered and leave it in the list exactly once. The code does not: in every world and
  for every postcode the call of \<^verbatim>\<open>con.sql\<close> raises, the \<^verbatim>\<open>except\<close> clause raises
  \<^verbatim>\<open>AttributeError\<close> in its turn, and the table is as it was. In the registry of
  \<^verbatim>\<open>10001\<close> and \<^verbatim>\<open>20002\<close>, \<^verbatim>\<open>add_location("30003")\<close> ends with that error and
  \<^verbatim>\<open>get_locations\<close> still returns the two.
\<close>

theorem add_location_raises_and_inserts_nothing:
  "add_location self postcode w = (Inl (AttributeError no_DuckDBException_text), w)
   \<and> add_location example_pipeline ''30003'' registry_world
       = (Inl (AttributeError no_DuckDBException_text), registry_world)
   \<and> fst (get_locations example_pipeline (snd (add_location example_pipeline ''30003'' registry_world)))
       = Inr [''10001'', ''20002'']"
  by (simp add: add_location_def sql_with_positional_argument_def except_DuckDBException_def
      get_locations_def sql_select_def registry_world_def)

text \<open>
  Claim C8. The claim asks that \<^verbatim>\<open>remove_location(L)\<close> succeed, as a no-op when \<open>L\<close> is
  absent and removing one occurrence when it is present. The code does not: in every
  world and for every postcode the call of \<^verbatim>\<open>con.sql\<close> raises, the \<^verbatim>\<open>except\<close> clause
  raises \<^verbatim>\<open>AttributeError\<close> in its turn, and the table is as it was. In the registry of
  \<^verbatim>\<open>10001\<close> and \<^verbatim>\<open>20002\<close>, \<^verbatim>\<open>remove_location("10001")\<close> and
  \<^verbatim>\<open>remove_location("30003")\<close> end with that error and \<^verbatim>\<open>get_locations\<close> still
  returns the two.
\<close>

theorem remove_location_raises_and_removes_nothing:
  "remove_location self postcode w = (Inl (AttributeError no_DuckDBException_text), w)
   \<and> remove_location example_pipeline ''10001'' registry_world
       = (Inl (AttributeError no_DuckDBException_text), registry_world)
   \<and> remove_location example_pipeline ''30003'' registry_world
       = (Inl (AttributeError no_DuckDBException_text), registry_world)
   \<and> fst (get_locations example_pipeline (snd (remove_location example_pipeline ''10001'' registry_world)))
       = Inr [''10001'', ''20002'']"
  by (simp add: remove_location_def sql_with_positional_argument_def except_DuckDBException_def
      get_locations_def sql_select_def registry_world_def)

section \<open>Properties of the local writer\<close>

lemma mkdir_Inr: "mkdir name p w = Inr w' \<Longrightarrow> w' = w\<lparr>dirs := insert p (dirs w)\<rparr>"
  by (simp add: mkdir_def split: if_splits)

lemma makedirs_from_frame:
  "makedirs_from name a pre cs w = (r, w') \<Longrightarrow> w' = w\<lparr>dirs := dirs w'\<rparr>"
proof (induction cs arbitrary: pre w)
  case Nil
  then show ?case by simp
next
  case (Cons c cs)
  show ?case
  proof (cases "isdir w (a, pre @ [c])")
    case True
    with Cons.prems have "makedirs_from name a (pre @ [c]) cs w = (r, w')" by simp
    then show ?thesis by (rule Cons.IH)
  next
    case False
    note nd = this
    show ?thesis
    proof (cases "isfile w (a, pre @ [c]) \<and> cs \<noteq> []")
      case True
      with nd Cons.prems show ?thesis by (simp add: Let_def)
    next
      case False
      show ?thesis
      proof (cases "mkdir name (a, pre @ [c]) w")
        case (Inl e)
        with nd False Cons.prems show ?thesis by (auto simp add: Let_def split: if_splits)
      next
        case (Inr w'')
        with nd False Cons.prems have "makedirs_from name a (pre @ [c]) cs w'' = (r, w')" by (auto simp add: Let_def split: if_splits)
        then have "w' = w''\<lparr>dirs := dirs w'\<rparr>" by (rule Cons.IH)
        with mkdir_Inr [OF Inr] show ?thesis by simp
      qed
    qed
  qed
qed

lemma makedirs_frame: "makedirs name w = (r, w') \<Longrightarrow> w' = w\<lparr>dirs := dirs w'\<rparr>"
  by (auto simp add: makedirs_def split: if_splits dest: makedirs_from_frame)

lemma isdir_insert: "isdir w q \<Longrightarrow> isdir (w\<lparr>dirs := insert p (dirs w)\<rparr>) q"
  by (auto simp add: isdir_def)

lemma makedirs_from_all_dirs:
  "makedirs_from name a pre cs w = (Inr (), w') \<Longrightarrow>
   (\<forall>k. isdir w (a, take k pre)) \<Longrightarrow> isdir w' (a, take k (pre @ cs))"
proof (induction cs arbitrary: pre w)
  case Nil
  then show ?case by simp
next
  case (Cons c cs)
  let ?q = "(a, pre @ [c])"
  have step: "makedirs_from name a (pre @ [c]) cs w1 = (Inr (), w') \<Longrightarrow>
      (\<forall>k. isdir w1 (a, take k pre)) \<Longrightarrow> isdir w1 ?q \<Longrightarrow> isdir w' (a, take k (pre @ c # cs))" for w1
  proof -
    assume m: "makedirs_from name a (pre @ [c]) cs w1 = (Inr (), w')"
      and p: "\<forall>k. isdir w1 (a, take k pre)" and q: "isdir w1 ?q"
    have "\<forall>j. isdir w1 (a, take j (pre @ [c]))"
    proof
      fix j
      show "isdir w1 (a, take j (pre @ [c]))"
      proof (cases "j \<le> length pre")
        case True
        then show ?thesis using p by simp
      next
        case False
        then show ?thesis using q by simp
      qed
    qed
    with m have "isdir w' (a, take k ((pre @ [c]) @ cs))" by (rule Cons.IH)
    then show ?thesis by simp
  qed
  show ?case
  proof (cases "isdir w ?q")
    case True
    with Cons.prems have "makedirs_from name a (pre @ [c]) cs w = (Inr (), w')" by simp
    then show ?thesis using Cons.prems(2) True by (rule step)
  next
    case False
    note nd = this
    show ?thesis
    proof (cases "isfile w ?q \<and> cs \<noteq> []")
      case True
      with nd Cons.prems show ?thesis by (simp add: Let_def)
    next
      case False
      show ?thesis
      proof (cases "mkdir name ?q w")
        case (Inl e)
        with nd False Cons.prems show ?thesis by (auto simp add: Let_def split: if_splits)
      next
        case (Inr w'')
        with nd False Cons.prems have m: "makedirs_from name a (pre @ [c]) cs w'' = (Inr (), w')" by (auto simp add: Let_def split: if_splits)
        have w'': "w'' = w\<lparr>dirs := insert ?q (dirs w)\<rparr>" by (rule mkdir_Inr [OF Inr])
        have "\<forall>k. isdir w'' (a, take k pre)"
          using Cons.prems(2) unfolding w'' by (blast intro: isdir_insert)
        moreover have "isdir w'' ?q" by (simp add: w'' isdir_def)
        ultimately show ?thesis using m step by blast
      qed
    qed
  qed
qed

lemma makedirs_all_dirs:
  assumes "makedirs name w = (Inr (), w')"
  shows "isdir w' (fst (resolve name), take k (snd (resolve name)))"
proof -
  from assms have "makedirs_from name (fst (resolve name)) [] (snd (resolve name)) w = (Inr (), w')"
    by (simp add: makedirs_def split: if_splits)
  moreover have "\<forall>k. isdir w (fst (resolve name), take k [])" by (simp add: isdir_def)
  ultimately have "isdir w' (fst (resolve name), take k ([] @ snd (resolve name)))"
    by (rule makedirs_from_all_dirs)
  then show ?thesis by simp
qed

lemma open_write_Inr:
  "open_write destination data w = Inr w' \<Longrightarrow>
     w' = w\<lparr>files := (files w)(resolve destination \<mapsto> data)\<rparr>"
  by (simp add: open_write_def Let_def split: if_splits)

lemma LocalWriter_write_frame:
  assumes "LocalWriter_write data destination w = (r, w')"
  shows "w' = w\<lparr>dirs := dirs w', files := files w'\<rparr>"
proof (cases "makedirs (dirname destination) w")
  case (Pair r1 w1)
  note mk = this
  have f1: "w1 = w\<lparr>dirs := dirs w1\<rparr>" using mk by (rule makedirs_frame)
  show ?thesis
  proof (cases r1)
    case (Inl e)
    with mk assms have "w' = w1" by (simp add: LocalWriter_write_def)
    with f1 show ?thesis by (metis world.surjective world.update_convs(5,6) world.select_convs(6))
  next
    case (Inr u)
    show ?thesis
    proof (cases "open_write destination data w1")
      case (Inl e)
      with mk Inr assms have "w' = w1" by (auto simp add: LocalWriter_write_def split: if_splits)
      with f1 show ?thesis by (metis world.surjective world.update_convs(5,6) world.select_convs(6))
    next
      case (Inr w2)
      with mk \<open>r1 = Inr u\<close> assms have "w' = w2" by (simp add: LocalWriter_write_def)
      with open_write_Inr [OF Inr] f1 show ?thesis
        by (metis world.surjective world.update_convs(5,6) world.select_convs(5,6))
    qed
  qed
qed

lemma LocalWriter_write_keeps:
  assumes "LocalWriter_write data destination w = (r, w')"
  shows "write_calls w' = write_calls w" and "net_calls w' = net_calls w"
  using LocalWriter_write_frame [OF assms, THEN arg_cong, of write_calls]
    LocalWriter_write_frame [OF assms, THEN arg_cong, of net_calls]
  by simp_all

lemma call_write_net_calls:
  assumes "call_write writer data destination w = (r, w')"
  shows "net_calls w' = net_calls w"
proof (cases writer)
  case LocalWriter
  obtain r1 w1 where l: "LocalWriter_write data destination
      (w\<lparr>write_calls := write_calls w @ [(data, destination)]\<rparr>) = (r1, w1)"
    by (cases "LocalWriter_write data destination (w\<lparr>write_calls := write_calls w @ [(data, destination)]\<rparr>)")
  with assms LocalWriter have "w' = w1"
    by (cases r1) (simp_all add: call_write_def)
  with LocalWriter_write_keeps(2) [OF l] show ?thesis by simp
next
  case AzureBlobWriter
  with assms show ?thesis by (auto simp add: call_write_def AzureBlobWriter_write_def)
next
  case (ExnObject e)
  with assms show ?thesis by (auto simp add: call_write_def)
qed

lemma call_write_calls:
  assumes "writer = LocalWriter \<or> writer = AzureBlobWriter"
  shows "write_calls (snd (call_write writer data destination w)) = write_calls w @ [(data, destination)]"
proof (cases writer)
  case LocalWriter
  obtain r1 w1 where l: "LocalWriter_write data destination
      (w\<lparr>write_calls := write_calls w @ [(data, destination)]\<rparr>) = (r1, w1)"
    by (cases "LocalWriter_write data destination (w\<lparr>write_calls := write_calls w @ [(data, destination)]\<rparr>)")
  with LocalWriter have "snd (call_write writer data destination w) = w1"
    by (cases r1) (simp_all add: call_write_def)
  with LocalWriter_write_keeps(1) [OF l] show ?thesis by simp
next
  case AzureBlobWriter
  then show ?thesis by (simp add: call_write_def AzureBlobWriter_write_def)
next
  case (ExnObject e)
  with assms show ?thesis by simp
qed

section \<open>Properties of fetching and writing\<close>

lemma get_and_write_net_calls:
  assumes "get_and_write_forecast_history self date location writer destination w = (r, w')"
  shows "net_calls w' = net_calls w @ [history_url (weather_data self) date location]"
proof -
  obtain r1 w1 where g: "get_forecast_history (weather_data self) date location w = (r1, w1)"
    by (cases "get_forecast_history (weather_data self) date location w")
  with get_forecast_history_world [of "weather_data self" date location w]
  have w1: "net_calls w1 = net_calls w @ [history_url (weather_data self) date location]"
    by simp
  show ?thesis
  proof (cases r1)
    case (Inl e)
    with g assms have "w' = w1" by (simp add: get_and_write_forecast_history_def)
    with w1 show ?thesis by simp
  next
    case (Inr res)
    obtain result status where res: "res = (result, status)" by (cases res)
    show ?thesis
    proof (cases "status = 200")
      case False
      with g Inr res assms have "w' = w1" by (simp add: get_and_write_forecast_history_def)
      with w1 show ?thesis by simp
    next
      case True
      obtain r2 w2 where c: "call_write writer (py_str result) destination w1 = (r2, w2)"
        by (cases "call_write writer (py_str result) destination w1")
      with g Inr res True assms have "w' = w2"
        by (cases r2) (simp_all add: get_and_write_forecast_history_def)
      with call_write_net_calls [OF c] w1 show ?thesis by simp
    qed
  qed
qed

lemma example_fetch:
  "get_forecast_history (weather_data example_pipeline) ''2024-01-01'' ''10001'' example_world
     = (Inr (JDict [(''temp_c'', JInt 21)], 200),
        example_world\<lparr>net_calls := [history_url example_client ''2024-01-01'' ''10001'']\<rparr>)"
  by (simp add: get_forecast_history_def send_request_def send_request_try_def raise_for_status_def
      example_world_def example_pipeline_def)

lemma example_write:
  "fst (get_and_write_forecast_history example_pipeline ''2024-01-01'' ''10001'' LocalWriter
          ''/tmp/out/10001/2024-01-01.json'' example_world) = Inr ()"
  unfolding get_and_write_forecast_history_def example_fetch
  by (simp add: py_str_example call_write_def
      LocalWriter_write_def dirname_example makedirs_def resolve_example_dir resolve_example_file
      mkdir_def isdir_def isfile_def parent_def open_write_def example_world_def Let_def
      del: py_str.simps)

lemma stale_fetch:
  "get_forecast_history (weather_data example_pipeline) ''2024-01-01'' ''10001'' stale_world
     = (Inr (JDict [(''temp_c'', JInt 21)], 200),
        stale_world\<lparr>net_calls := [history_url example_client ''2024-01-01'' ''10001'']\<rparr>)"
  by (simp add: get_forecast_history_def send_request_def send_request_try_def raise_for_status_def
      example_world_def stale_world_def example_pipeline_def)

lemma stale_write:
  "fst (get_and_write_forecast_history example_pipeline ''2024-01-01'' ''10001'' LocalWriter
          ''/tmp/out/10001/2024-01-01.json'' stale_world) = Inr ()"
  unfolding get_and_write_forecast_history_def stale_fetch
  by (simp add: py_str_example call_write_def
      LocalWriter_write_def dirname_example makedirs_def resolve_example_dir resolve_example_file
      mkdir_def isdir_def isfile_def parent_def open_write_def example_world_def stale_world_def Let_def
      del: py_str.simps)

text \<open>
  Claim C3, as stated, fails for a status inside 200..299 other than 200: with the fetch
  result \<^verbatim>\<open>({"temp_c": 21}, 201)\<close> the call fails and no \<^verbatim>\<open>write\<close> is called.
\<close>

theorem status_201_counterexample:
  "fst (get_and_write_forecast_history example_pipeline ''2024-01-01'' ''10001'' LocalWriter
          ''/tmp/out/10001/2024-01-01.json''
          (example_world\<lparr>http := \<lambda>calls url. GetReturns
             \<lparr>status_code = 201, json_result = Inr (JDict [(''temp_c'', JInt 21)])\<rparr>\<rparr>))
     = Inl (Exception ''Failed to fetch data: {'temp_c': 21}'')
   \<and> write_calls (snd (get_and_write_forecast_history example_pipeline ''2024-01-01'' ''10001'' LocalWriter
          ''/tmp/out/10001/2024-01-01.json''
          (example_world\<lparr>http := \<lambda>calls url. GetReturns
             \<lparr>status_code = 201, json_result = Inr (JDict [(''temp_c'', JInt 21)])\<rparr>\<rparr>)))
     = []"
  by (simp add: get_and_write_forecast_history_def get_forecast_history_def send_request_def
      send_request_try_def raise_for_status_def example_world_def py_str_example
      del: py_str.simps)

text \<open>
  Claim C3, amended. When the fetch returns a status other than 200, the call fails with
  the \<^verbatim>\<open>Exception\<close> \<^verbatim>\<open>Failed to fetch data\<close> and no \<^verbatim>\<open>write\<close> is called (files
  and directories are as before); when the status is 200 and the writer is a
  \<^verbatim>\<open>Writer\<close>, its \<^verbatim>\<open>write\<close> is called exactly once, with the \<^verbatim>\<open>str\<close> of the
  payload and the destination.
\<close>

theorem fetch_and_write_only_on_status_200:
  assumes "get_forecast_history (weather_data self) date location w = (Inr (result, status), w1)"
  shows "(status \<noteq> 200 \<longrightarrow>
            get_and_write_forecast_history self date location writer destination w
              = (Inl (Exception (''Failed to fetch data: '' @ py_str result)), w1)
            \<and> write_calls w1 = write_calls w \<and> files w1 = files w \<and> dirs w1 = dirs w)
       \<and> (status = 200 \<and> (writer = LocalWriter \<or> writer = AzureBlobWriter) \<longrightarrow>
            write_calls (snd (get_and_write_forecast_history self date location writer destination w))
              = write_calls w @ [(py_str result, destination)])"
proof -
  from assms get_forecast_history_world [of "weather_data self" date location w]
  have w1: "w1 = w\<lparr>net_calls := net_calls w @ [history_url (weather_data self) date location]\<rparr>"
    by simp
  have a: "status \<noteq> 200 \<Longrightarrow> get_and_write_forecast_history self date location writer destination w
              = (Inl (Exception (''Failed to fetch data: '' @ py_str result)), w1)"
    using assms by (simp add: get_and_write_forecast_history_def)
  have b: "write_calls (snd (get_and_write_forecast_history self date location writer destination w))
              = write_calls w @ [(py_str result, destination)]"
    if s: "status = 200" and wr: "writer = LocalWriter \<or> writer = AzureBlobWriter"
  proof -
    have "snd (get_and_write_forecast_history self date location writer destination w)
        = snd (call_write writer (py_str result) destination w1)"
      using assms s by (simp add: get_and_write_forecast_history_def split: prod.splits sum.splits)
    with call_write_calls [OF wr, of "py_str result" destination w1] w1 show ?thesis by simp
  qed
  show ?thesis using a b w1 by simp
qed

theorem fetch_and_write_only_on_status_200_witness:
  "get_and_write_forecast_history example_pipeline ''2024-01-01'' ''10001'' LocalWriter
       ''/tmp/out/10001/2024-01-01.json''
       (example_world\<lparr>http := \<lambda>calls url. GetReturns \<lparr>status_code = 500, json_result = Inr (JDict [])\<rparr>\<rparr>)
     = (Inl (Exception ''Failed to fetch data: {}''),
        example_world\<lparr>http := \<lambda>calls url. GetReturns \<lparr>status_code = 500, json_result = Inr (JDict [])\<rparr>,
                      net_calls := [history_url example_client ''2024-01-01'' ''10001'']\<rparr>)
   \<and> write_calls (snd (get_and_write_forecast_history example_pipeline ''2024-01-01'' ''10001'' LocalWriter
          ''/tmp/out/10001/2024-01-01.json'' example_world))
       = [(''{'temp_c': 21}'', ''/tmp/out/10001/2024-01-01.json'')]"
proof -
  let ?w500 = "example_world\<lparr>http := \<lambda>calls url. GetReturns \<lparr>status_code = 500, json_result = Inr (JDict [])\<rparr>\<rparr>"
  have f500: "get_forecast_history (weather_data example_pipeline) ''2024-01-01'' ''10001'' ?w500
      = (Inr (JDict [], 500), ?w500\<lparr>net_calls := [history_url example_client ''2024-01-01'' ''10001'']\<rparr>)"
    by (simp add: get_forecast_history_def send_request_def send_request_try_def send_request_except_def
        raise_for_status_def example_world_def example_pipeline_def)
  have w: "write_calls example_world = []"
    by (simp add: example_world_def)
  from fetch_and_write_only_on_status_200 [OF f500, of LocalWriter "''/tmp/out/10001/2024-01-01.json''"]
    fetch_and_write_only_on_status_200 [OF example_fetch, of LocalWriter "''/tmp/out/10001/2024-01-01.json''"]
  show ?thesis
    by (simp add: py_str_example py_str_empty w del: py_str.simps)
qed

text \<open>
  Claim C9. When the fetch has returned status 200 and the call with a
  \<^verbatim>\<open>LocalWriter\<close> has succeeded, \<^verbatim>\<open>os.makedirs\<close> has made every directory on the
  way to the destination's parent before the file is opened, and the file at the
  destination holds exactly the \<^verbatim>\<open>str\<close> of the payload, whatever it held before. The
  witness is the call with \<^verbatim>\<open>({"temp_c": 21}, 200)\<close> and the destination
  \<^verbatim>\<open>/tmp/out/10001/2024-01-01.json\<close>, on an empty file system and on one where the file
  exists.
\<close>

theorem local_writer_creates_dirs_and_overwrites:
  assumes "get_forecast_history (weather_data self) date location w = (Inr (result, 200), w1)"
    and "get_and_write_forecast_history self date location LocalWriter destination w = (Inr (), w')"
  shows "\<exists>w2. makedirs (dirname destination)
                 (w1\<lparr>write_calls := write_calls w1 @ [(py_str result, destination)]\<rparr>) = (Inr (), w2)
           \<and> (\<forall>k. isdir w2 (fst (resolve (dirname destination)), take k (snd (resolve (dirname destination)))))
           \<and> open_write destination (py_str result) w2 = Inr w'
           \<and> (\<forall>k. isdir w' (fst (resolve (dirname destination)), take k (snd (resolve (dirname destination)))))
           \<and> isfile w' (resolve destination)
           \<and> files w' (resolve destination) = Some (py_str result)"
proof -
  let ?w0 = "w1\<lparr>write_calls := write_calls w1 @ [(py_str result, destination)]\<rparr>"
  obtain r2 w2 where mk: "makedirs (dirname destination) ?w0 = (r2, w2)"
    by (cases "makedirs (dirname destination) ?w0")
  from assms have cw1: "fst (call_write LocalWriter (py_str result) destination w1) \<noteq> Inl e" for e
    by (auto simp add: get_and_write_forecast_history_def split: prod.splits sum.splits)
  from assms have cw2: "snd (call_write LocalWriter (py_str result) destination w1) = w'"
    by (auto simp add: get_and_write_forecast_history_def split: prod.splits sum.splits)
  have r2: "r2 = Inr ()"
  proof (cases r2)
    case (Inl e)
    with mk have "fst (call_write LocalWriter (py_str result) destination w1) = Inl e"
      by (simp add: call_write_def LocalWriter_write_def)
    with cw1 show ?thesis by blast
  next
    case (Inr u)
    then show ?thesis by simp
  qed
  have ow: "open_write destination (py_str result) w2 = Inr w'"
  proof (cases "open_write destination (py_str result) w2")
    case (Inl e)
    with mk r2 have "\<exists>e'. fst (call_write LocalWriter (py_str result) destination w1) = Inl e'"
      by (simp add: call_write_def LocalWriter_write_def)
    with cw1 show ?thesis by blast
  next
    case (Inr w3)
    with mk r2 have "snd (call_write LocalWriter (py_str result) destination w1) = w3"
      by (simp add: call_write_def LocalWriter_write_def)
    with cw2 Inr show ?thesis by simp
  qed
  have d2: "isdir w2 (fst (resolve (dirname destination)), take k (snd (resolve (dirname destination))))" for k
    using mk r2 by (simp add: makedirs_all_dirs)
  have w': "w' = w2\<lparr>files := (files w2)(resolve destination \<mapsto> py_str result)\<rparr>"
    by (rule open_write_Inr [OF ow])
  have d': "isdir w' q = isdir w2 q" for q
    by (simp add: w' isdir_def)
  have nd: "\<not> isdir w2 (resolve destination)"
    using ow by (auto simp add: open_write_def Let_def split: if_splits)
  have f: "files w' (resolve destination) = Some (py_str result)"
    by (simp add: w')
  from nd f have "isfile w' (resolve destination)"
    by (simp add: isfile_def d')
  with mk r2 ow d2 d' f show ?thesis by auto
qed

theorem local_writer_creates_dirs_and_overwrites_witness:
  "files (snd (get_and_write_forecast_history example_pipeline ''2024-01-01'' ''10001'' LocalWriter
          ''/tmp/out/10001/2024-01-01.json'' example_world))
       (True, [''tmp'', ''out'', ''10001'', ''2024-01-01.json'']) = Some ''{'temp_c': 21}''
   \<and> isdir (snd (get_and_write_forecast_history example_pipeline ''2024-01-01'' ''10001'' LocalWriter
          ''/tmp/out/10001/2024-01-01.json'' example_world))
       (True, [''tmp'', ''out'', ''10001''])
   \<and> files stale_world (True, [''tmp'', ''out'', ''10001'', ''2024-01-01.json'']) = Some ''stale''
   \<and> files (snd (get_and_write_forecast_history example_pipeline ''2024-01-01'' ''10001'' LocalWriter
          ''/tmp/out/10001/2024-01-01.json'' stale_world))
       (True, [''tmp'', ''out'', ''10001'', ''2024-01-01.json'']) = Some ''{'temp_c': 21}''"
proof -
  let ?G = "\<lambda>w. get_and_write_forecast_history example_pipeline ''2024-01-01'' ''10001'' LocalWriter
          ''/tmp/out/10001/2024-01-01.json'' w"
  have a: "?G example_world = (Inr (), snd (?G example_world))"
    using example_write by (simp add: prod_eq_iff)
  have b: "?G stale_world = (Inr (), snd (?G stale_world))"
    using stale_write by (simp add: prod_eq_iff)
  have s: "files stale_world (True, [''tmp'', ''out'', ''10001'', ''2024-01-01.json'']) = Some ''stale''"
    by (simp add: stale_world_def)
  from local_writer_creates_dirs_and_overwrites [OF example_fetch a]
  have 1: "files (snd (?G example_world)) (True, [''tmp'', ''out'', ''10001'', ''2024-01-01.json''])
             = Some ''{'temp_c': 21}''"
    and 2: "\<forall>k. isdir (snd (?G example_world)) (True, take k [''tmp'', ''out'', ''10001''])"
    by (auto simp add: resolve_example_file resolve_example_dir dirname_example py_str_example
        simp del: py_str.simps)
  from 2 have 3: "isdir (snd (?G example_world)) (True, take 3 [''tmp'', ''out'', ''10001''])" ..
  from local_writer_creates_dirs_and_overwrites [OF stale_fetch b]
  have 4: "files (snd (?G stale_world)) (True, [''tmp'', ''out'', ''10001'', ''2024-01-01.json''])
             = Some ''{'temp_c': 21}''"
    by (auto simp add: resolve_example_file resolve_example_dir dirname_example py_str_example
        simp del: py_str.simps)
  from 1 3 s 4 show ?thesis by simp
qed

section \<open>Properties of the run over all locations\<close>

lemma run_loop_net_calls:
  "run_loop wp today writer locations w = (Inr (), w') \<Longrightarrow>
     net_calls w' = net_calls w @ map (history_url (weather_data wp) today) locations"
proof (induction locations arbitrary: w)
  case Nil
  then show ?case by simp
next
  case (Cons l ls)
  obtain r1 w1 where g: "get_and_write_forecast_history wp today l writer (destination_of l today) w = (r1, w1)"
    by (cases "get_and_write_forecast_history wp today l writer (destination_of l today) w")
  show ?case
  proof (cases r1)
    case (Inl e)
    with g Cons.prems show ?thesis by simp
  next
    case (Inr u)
    with g Cons.prems have "run_loop wp today writer ls w1 = (Inr (), w')" by simp
    then have "net_calls w' = net_calls w1 @ map (history_url (weather_data wp) today) ls"
      by (rule Cons.IH)
    with get_and_write_net_calls [OF g] show ?thesis by simp
  qed
qed

lemma run_loop_append:
  "run_loop wp today writer pre w = (Inr (), wl) \<Longrightarrow>
     run_loop wp today writer (pre @ rest) w = run_loop wp today writer rest wl"
proof (induction pre arbitrary: w)
  case Nil
  then show ?case by simp
next
  case (Cons l ls)
  obtain r1 w1 where g: "get_and_write_forecast_history wp today l writer (destination_of l today) w = (r1, w1)"
    by (cases "get_and_write_forecast_history wp today l writer (destination_of l today) w")
  show ?case
  proof (cases r1)
    case (Inl e)
    with g Cons.prems show ?thesis by simp
  next
    case (Inr u)
    with g Cons.prems have "run_loop wp today writer ls w1 = (Inr (), wl)" by simp
    then have "run_loop wp today writer (ls @ rest) w1 = run_loop wp today writer rest wl"
      by (rule Cons.IH)
    with g Inr show ?thesis by simp
  qed
qed

text \<open>
  Claim C1, as stated, fails: with the locations \<^verbatim>\<open>10001\<close>, \<^verbatim>\<open>20002\<close>, \<^verbatim>\<open>30003\<close>
  and a status 500 for \<^verbatim>\<open>20002\<close> the script ends with the exception of \<^verbatim>\<open>20002\<close>;
  the requests sent are those of the first two locations, and no file is written for
  \<^verbatim>\<open>30003\<close>.
\<close>

theorem run_aborts_counterexample:
  "fst (main ''2024-01-01'' outage_world) = Inl (Exception ''Failed to fetch data: {}'')
   \<and> net_calls (snd (main ''2024-01-01'' outage_world))
       = [''https://api.example/v1/history.json?key=k&q=10001&dt=2024-01-01'',
          ''https://api.example/v1/history.json?key=k&q=20002&dt=2024-01-01'']
   \<and> files (snd (main ''2024-01-01'' outage_world)) (resolve ''./output/10001/2024-01-01.json'')
       = Some ''{'temp_c': 21}''
   \<and> files (snd (main ''2024-01-01'' outage_world)) (resolve ''./output/30003/2024-01-01.json'') = None"
proof -
  have m: "main ''2024-01-01'' outage_world
      = (Inl (Exception ''Failed to fetch data: {}''),
         outage_world
           \<lparr>net_calls := [''https://api.example/v1/history.json?key=k&q=10001&dt=2024-01-01'',
                          ''https://api.example/v1/history.json?key=k&q=20002&dt=2024-01-01''],
            dirs := {(False, [''output'', ''10001'']), (False, [''output''])},
            files := [(False, [''output'', ''10001'', ''2024-01-01.json'']) \<mapsto> ''{'temp_c': 21}''],
            write_calls := [(''{'temp_c': 21}'', ''./output/10001/2024-01-01.json'')]\<rparr>)"
    by (simp add: main_def WeatherPipeline_init_def duckdb_connect_def WeatherData_init_def
        sql_create_table_if_not_exists_def get_writer_def get_locations_def sql_select_def
        get_and_write_forecast_history_def get_forecast_history_def history_url_def
        send_request_def send_request_try_def send_request_except_def raise_for_status_def
        destination_of_def call_write_def LocalWriter_write_def makedirs_def mkdir_def
        open_write_def isdir_def isfile_def parent_def Let_def
        dirname_output_10001 resolve_output_10001 resolve_output_10001_file
        py_str_example py_str_empty outage_world_def example_world_def
        del: py_str.simps)
  show ?thesis
    unfolding m
    by (simp add: resolve_output_10001_file resolve_output_30003_file)
qed

text \<open>
  Claim C1, amended. The run attempts the locations in list order and stops at the first
  one whose attempt fails: the run ends with that failure, in the world that attempt
  left, whatever locations follow, and the requests sent are those up to the failing
  location. A run in which no attempt fails has sent the request of every location.
\<close>

theorem run_stops_at_first_failure:
  "(run_loop wp today writer pre w = (Inr (), wl)
      \<and> get_and_write_forecast_history wp today l writer (destination_of l today) wl = (Inl e, w')
     \<longrightarrow> run_loop wp today writer (pre @ l # post) w = (Inl e, w')
       \<and> net_calls w' = net_calls w @ map (history_url (weather_data wp) today) (pre @ [l]))
   \<and> (run_loop wp today writer locations w = (Inr (), w'')
     \<longrightarrow> net_calls w'' = net_calls w @ map (history_url (weather_data wp) today) locations)"
proof (intro conjI impI)
  assume a: "run_loop wp today writer pre w = (Inr (), wl)
      \<and> get_and_write_forecast_history wp today l writer (destination_of l today) wl = (Inl e, w')"
  then have "run_loop wp today writer (pre @ l # post) w = run_loop wp today writer (l # post) wl"
    by (simp add: run_loop_append)
  with a show "run_loop wp today writer (pre @ l # post) w = (Inl e, w')" by simp
  from a have "net_calls wl = net_calls w @ map (history_url (weather_data wp) today) pre"
    by (blast intro: run_loop_net_calls)
  moreover from a have "net_calls w' = net_calls wl @ [history_url (weather_data wp) today l]"
    by (blast intro: get_and_write_net_calls)
  ultimately show "net_calls w' = net_calls w @ map (history_url (weather_data wp) today) (pre @ [l])"
    by simp
next
  assume "run_loop wp today writer locations w = (Inr (), w'')"
  then show "net_calls w'' = net_calls w @ map (history_url (weather_data wp) today) locations"
    by (rule run_loop_net_calls)
qed

theorem run_stops_at_first_failure_witness:
  "fst (run_loop example_pipeline ''2024-01-01'' LocalWriter [''10001'', ''20002'', ''30003''] outage_world)
     = Inl (Exception ''Failed to fetch data: {}'')
   \<and> net_calls (snd (run_loop example_pipeline ''2024-01-01'' LocalWriter [''10001'', ''20002'', ''30003'']
        outage_world))
     = [''https://api.example/v1/history.json?key=k&q=10001&dt=2024-01-01'',
        ''https://api.example/v1/history.json?key=k&q=20002&dt=2024-01-01'']
   \<and> net_calls (snd (run_loop example_pipeline ''2024-01-01'' LocalWriter [''10001''] outage_world))
     = [''https://api.example/v1/history.json?key=k&q=10001&dt=2024-01-01'']"
proof -
  let ?wl = "outage_world
           \<lparr>net_calls := [''https://api.example/v1/history.json?key=k&q=10001&dt=2024-01-01''],
            dirs := {(False, [''output'', ''10001'']), (False, [''output''])},
            files := [(False, [''output'', ''10001'', ''2024-01-01.json'']) \<mapsto> ''{'temp_c': 21}''],
            write_calls := [(''{'temp_c': 21}'', ''./output/10001/2024-01-01.json'')]\<rparr>"
  let ?w' = "?wl\<lparr>net_calls := [''https://api.example/v1/history.json?key=k&q=10001&dt=2024-01-01'',
                          ''https://api.example/v1/history.json?key=k&q=20002&dt=2024-01-01'']\<rparr>"
  have a: "run_loop example_pipeline ''2024-01-01'' LocalWriter [''10001''] outage_world = (Inr (), ?wl)"
    by (simp add: example_pipeline_def example_client_def
        get_and_write_forecast_history_def get_forecast_history_def history_url_def
        send_request_def send_request_try_def send_request_except_def raise_for_status_def
        destination_of_def call_write_def LocalWriter_write_def makedirs_def mkdir_def
        open_write_def isdir_def isfile_def parent_def Let_def
        dirname_output_10001 resolve_output_10001 resolve_output_10001_file
        py_str_example py_str_empty outage_world_def example_world_def
        del: py_str.simps)
  have b: "get_and_write_forecast_history example_pipeline ''2024-01-01'' ''20002'' LocalWriter
        (destination_of ''20002'' ''2024-01-01'') ?wl = (Inl (Exception ''Failed to fetch data: {}''), ?w')"
    by (simp add: example_pipeline_def example_client_def
        get_and_write_forecast_history_def get_forecast_history_def history_url_def
        send_request_def send_request_try_def send_request_except_def raise_for_status_def
        py_str_empty outage_world_def example_world_def
        del: py_str.simps)
  have n: "net_calls outage_world = []"
    by (simp add: outage_world_def example_world_def)
  have u: "history_url (weather_data example_pipeline) ''2024-01-01'' ''10001''
      = ''https://api.example/v1/history.json?key=k&q=10001&dt=2024-01-01''"
    by (simp add: history_url_def example_pipeline_def example_client_def)
  from run_stops_at_first_failure [where wp = example_pipeline and today = "''2024-01-01''"
      and writer = LocalWriter and pre = "[''10001'']" and w = outage_world and wl = ?wl
      and l = "''20002''" and e = "Exception ''Failed to fetch data: {}''" and w' = ?w'
      and post = "[''30003'']" and locations = "[''10001'']" and w'' = ?wl] a b n u
  show ?thesis by simp
qed

end
